theory Spec2Isabelle
  imports Main "HOL-Library.AList"
begin

section \<open>Values\<close>

text \<open>
  The values that \<open>model_dump(mode="json")\<close> produces and that \<open>workflow_from_id\<close>
  assembles. A Python dict keeps its keys in insertion order and assigns in place, so
  a dict is an association list read with \<open>map_of\<close> and written with
  \<open>AList.update\<close> (replace where the key is, append where it is not).
  \<open>JSkill\<close> is a \<open>Skill\<close> object, as \<open>Skill.model_validate\<close> builds it from a dump; it is
  represented by the dump it was validated from.
\<close>

datatype json =
    JNull
  | JBool bool
  | JInt int
  | JStr string
  | JList "json list"
  | JDict "(string \<times> json) list"
  | JSkill "(string \<times> json) list"

type_synonym dict = "(string \<times> json) list"

text \<open>Python's truth value of an object, as \<open>if llm_config:\<close> tests it.\<close>

fun truthy :: "json \<Rightarrow> bool" where
  "truthy JNull = False"
| "truthy (JBool b) = b"
| "truthy (JInt i) = (i \<noteq> 0)"
| "truthy (JStr s) = (s \<noteq> [])"
| "truthy (JList xs) = (xs \<noteq> [])"
| "truthy (JDict d) = (d \<noteq> [])"
| "truthy (JSkill d) = True"

text \<open>The exceptions of the module: those it raises itself, those of the Python
  operations it uses, and those of the migration framework (\<open>util.exc.CommandError\<close>,
  \<open>util.exc.AutogenerateDiffsDetected\<close>, and \<open>OtherException\<close> for an exception of any
  other class).\<close>

datatype error =
    ValueError string
  | RuntimeError string
  | IndexError
  | KeyError
  | TypeError
  | AttributeError
  | RecursionError
  | CommandError
  | AutogenerateDiffsDetected
  | OtherException

text \<open>A comprehension stops at the first element that raises.\<close>

fun sequence :: "(error + 'a) list \<Rightarrow> error + 'a list" where
  "sequence [] = Inr []"
| "sequence (x # xs) =
     (case x of
        Inl e \<Rightarrow> Inl e
      | Inr v \<Rightarrow> (case sequence xs of Inl e \<Rightarrow> Inl e | Inr vs \<Rightarrow> Inr (v # vs)))"

section \<open>Rows and the database\<close>

text \<open>
  The ORM classes (\<open>Model\<close>, \<open>Skill\<close>, \<open>Agent\<close>, \<open>Workflow\<close>, \<open>WorkflowAgentLink\<close>) are
  imported from \<open>..datamodel\<close>. A row carries the attributes this module reads as
  typed fields, and every other column in \<open>rest\<close>, already in JSON form. \<open>rid\<close> is the
  primary key \<open>id\<close>: \<open>None\<close> for an object that has not been committed.
\<close>

record row =
  rid :: "int option"
  rest :: dict

record agent_row = row +
  atype :: string
  config :: dict

record workflow_row = row +
  wname :: string
  wtype :: string

record link_row =
  link_workflow_id :: int
  link_agent_id :: int
  link_agent_type :: "string option"
  link_sequence_id :: int
  link_rest :: dict

text \<open>
  The database behind \<open>dbmanager\<close>: one list of rows per table, in the order the rows
  are returned by a query. The association tables carry the names that
  \<open>dbmanager.link\<close> gives them; three of them hold pairs (primary id, secondary id).
  \<open>commits\<close> counts the commits of sessions opened by this module.
\<close>

record db =
  model_rows :: "row list"
  skill_rows :: "row list"
  agent_rows :: "agent_row list"
  workflow_rows :: "workflow_row list"
  agent_model :: "(int \<times> int) list"
  agent_skill :: "(int \<times> int) list"
  agent_agent :: "(int \<times> int) list"
  workflow_agent :: "link_row list"
  commits :: nat

text \<open>Modelled from the spec: the enum values \<open>AgentType.groupchat\<close> and
  \<open>WorkFlowType.sequential.value\<close> of \<open>..datamodel\<close>, which name their members.\<close>

definition AgentType_groupchat :: string where
  "AgentType_groupchat = ''groupchat''"

definition WorkFlowType_sequential :: string where
  "WorkFlowType_sequential = ''sequential''"

text \<open>Modelled from the spec: \<open>dbmanager.get\<close> and \<open>dbmanager.get_items\<close> answer a query
  with the rows of the table that pass the filters, in \<open>.data\<close>.\<close>

definition dbmanager_get :: "'a list \<Rightarrow> ('a \<Rightarrow> bool) \<Rightarrow> 'a list" where
  "dbmanager_get table filters = filter filters table"

definition by_id :: "int option \<Rightarrow> 'a row_scheme \<Rightarrow> bool" where
  "by_id i r = (rid r = i)"

definition by_workflow_id :: "int \<Rightarrow> link_row \<Rightarrow> bool" where
  "by_workflow_id i l = (link_workflow_id l = i)"

text \<open>Modelled from the spec: the relationship attributes \<open>agent.skills\<close>,
  \<open>agent.models\<close> and \<open>agent.agents\<close> of \<open>..datamodel\<close> join the agent through its
  association table to the rows of the other table.\<close>

definition related :: "(int \<times> int) list \<Rightarrow> 'a row_scheme list \<Rightarrow> int option \<Rightarrow> 'a row_scheme list" where
  "related links table i =
     concat (map (\<lambda>(p, s). if Some p = i then dbmanager_get table (by_id (Some s)) else []) links)"

definition agent_skills :: "db \<Rightarrow> agent_row \<Rightarrow> row list" where
  "agent_skills d agent = related (agent_skill d) (skill_rows d) (rid agent)"

definition agent_models :: "db \<Rightarrow> agent_row \<Rightarrow> row list" where
  "agent_models d agent = related (agent_model d) (model_rows d) (rid agent)"

definition agent_agents :: "db \<Rightarrow> agent_row \<Rightarrow> agent_row list" where
  "agent_agents d agent = related (agent_agent d) (agent_rows d) (rid agent)"

text \<open>Modelled from the spec: \<open>model_dump(mode="json", exclude=...)\<close> of pydantic gives
  the fields of the object as a dict, without the excluded ones.\<close>

definition id_json :: "int option \<Rightarrow> json" where
  "id_json i = (case i of None \<Rightarrow> JNull | Some n \<Rightarrow> JInt n)"

definition row_fields :: "row \<Rightarrow> dict" where
  "row_fields r = (''id'', id_json (rid r)) # rest r"

definition agent_fields :: "agent_row \<Rightarrow> dict" where
  "agent_fields a =
     [(''id'', id_json (rid a)), (''type'', JStr (atype a)), (''config'', JDict (config a))] @ rest a"

definition workflow_fields :: "workflow_row \<Rightarrow> dict" where
  "workflow_fields w =
     [(''id'', id_json (rid w)), (''name'', JStr (wname w)), (''type'', JStr (wtype w))] @ rest w"

definition link_fields :: "link_row \<Rightarrow> dict" where
  "link_fields l =
     [(''workflow_id'', JInt (link_workflow_id l)), (''agent_id'', JInt (link_agent_id l)),
      (''agent_type'', (case link_agent_type l of None \<Rightarrow> JNull | Some t \<Rightarrow> JStr t)),
      (''sequence_id'', JInt (link_sequence_id l))] @ link_rest l"

definition model_dump :: "dict \<Rightarrow> string list \<Rightarrow> dict" where
  "model_dump flds exclude = filter (\<lambda>(k, v). k \<notin> set exclude) flds"

section \<open>workflow_from_id\<close>

definition dump_agent :: "agent_row \<Rightarrow> dict" where
  "dump_agent agent =
     (let exclude =
        (if atype agent \<noteq> AgentType_groupchat
         then [''admin_name'', ''messages'', ''max_round'', ''admin_name'',
               ''speaker_selection_method'', ''allow_repeat_speaker'']
         else [])
      in model_dump (agent_fields agent) exclude)"

definition model_exclude :: "string list" where
  "model_exclude = [''id'', ''agent_id'', ''created_at'', ''updated_at'', ''user_id'', ''description'']"

text \<open>
  Lines 67 to 72, the \<open>if len(models) > 0\<close> block. The right-hand side of line 68 is
  evaluated before its target, so a missing \<open>"config"\<close> raises KeyError at the target and a
  \<open>"config"\<close> that is no dict raises AttributeError at \<open>.get\<close>; assigning an item of a
  truthy \<open>llm_config\<close> that is no dict raises TypeError.
\<close>

definition set_config_list :: "dict \<Rightarrow> json list \<Rightarrow> error + dict" where
  "set_config_list agent_dict models =
     (if length models > 0 then
        (case map_of agent_dict ''config'' of
           None \<Rightarrow> Inl KeyError
         | Some (JDict cfg) \<Rightarrow>
             (let llm_config = (case map_of cfg ''llm_config'' of None \<Rightarrow> JDict [] | Some v \<Rightarrow> v);
                  cfg = AList.update ''llm_config'' llm_config cfg
              in if truthy llm_config then
                   (case llm_config of
                      JDict l \<Rightarrow>
                        Inr (AList.update ''config''
                              (JDict (AList.update ''llm_config''
                                 (JDict (AList.update ''config_list'' (JList models) l)) cfg))
                              agent_dict)
                    | _ \<Rightarrow> Inl TypeError)
                 else Inr (AList.update ''config'' (JDict cfg) agent_dict))
         | Some _ \<Rightarrow> Inl AttributeError)
      else Inr agent_dict)"

text \<open>
  \<open>get_agent\<close> calls itself for every sub-agent. Python bounds the nesting of calls and
  raises RecursionError beyond it; the first argument is the number of nested
  \<open>get_agent\<close> calls the interpreter still allows.
\<close>

fun get_agent :: "nat \<Rightarrow> db \<Rightarrow> int option \<Rightarrow> error + json" where
  "get_agent 0 d agent_id = Inl RecursionError"
| "get_agent (Suc depth) d agent_id =
     (case dbmanager_get (agent_rows d) (by_id agent_id) of
        [] \<Rightarrow> Inl IndexError
      | agent # _ \<Rightarrow>
          (let agent_dict = dump_agent agent;
               agent_dict = AList.update ''skills''
                 (JList (map (\<lambda>skill. JSkill (model_dump (row_fields skill) [])) (agent_skills d agent)))
                 agent_dict;
               models = map (\<lambda>model. JDict (model_dump (row_fields model) model_exclude)) (agent_models d agent);
               agent_dict = AList.update ''models''
                 (JList (map (\<lambda>model. JDict (model_dump (row_fields model) [])) (agent_models d agent)))
                 agent_dict
           in case set_config_list agent_dict models of
                Inl e \<Rightarrow> Inl e
              | Inr agent_dict \<Rightarrow>
                  (case sequence (map (\<lambda>agent. get_agent depth d (rid agent)) (agent_agents d agent)) of
                     Inl e \<Rightarrow> Inl e
                   | Inr sub_agents \<Rightarrow> Inr (JDict (AList.update ''agents'' (JList sub_agents) agent_dict)))))"

text \<open>
  Line 83, \<open>sorted(agents, key=lambda x: x["link"]["sequence_id"])\<close>. The keys are
  computed first, one per element. \<open>sequence_id\<close> is an integer column, so a key is an
  integer or \<open>None\<close>, and \<open>None\<close> does not compare: with two elements or more it raises
  TypeError. Python's sort is stable, as \<open>sort_key\<close> is.
\<close>

definition sequence_key :: "json \<Rightarrow> error + json" where
  "sequence_key x =
     (case x of
        JDict d \<Rightarrow>
          (case map_of d ''link'' of
             None \<Rightarrow> Inl KeyError
           | Some (JDict l) \<Rightarrow>
               (case map_of l ''sequence_id'' of None \<Rightarrow> Inl KeyError | Some k \<Rightarrow> Inr k)
           | Some _ \<Rightarrow> Inl TypeError)
      | _ \<Rightarrow> Inl TypeError)"

fun int_key :: "json \<Rightarrow> int option" where
  "int_key (JInt i) = Some i"
| "int_key _ = None"

definition sorted_by_sequence_id :: "json list \<Rightarrow> error + json list" where
  "sorted_by_sequence_id agents =
     (case sequence (map sequence_key agents) of
        Inl e \<Rightarrow> Inl e
      | Inr keys \<Rightarrow>
          (case those (map int_key keys) of
             Some ks \<Rightarrow> Inr (map snd (sort_key fst (zip ks agents)))
           | None \<Rightarrow> if length agents \<le> 1 then Inr agents else Inl TypeError))"

text \<open>Lines 78 and 79, the body of the loop over the links of the workflow.\<close>

definition linked_agent :: "nat \<Rightarrow> db \<Rightarrow> link_row \<Rightarrow> error + json" where
  "linked_agent depth d link =
     (case get_agent depth d (Some (link_agent_id link)) of
        Inl e \<Rightarrow> Inl e
      | Inr agent_dict \<Rightarrow>
          Inr (JDict [(''agent'', agent_dict), (''link'', JDict (model_dump (link_fields link) []))]))"

text \<open>
  \<open>workflow_from_id\<close> only queries the database; the database it leaves behind is the
  second component of the result.
\<close>

definition workflow_from_id :: "nat \<Rightarrow> int \<Rightarrow> db \<Rightarrow> (error + json) \<times> db" where
  "workflow_from_id depth workflow_id d =
     (case dbmanager_get (workflow_rows d) (by_id (Some workflow_id)) of
        [] \<Rightarrow> (Inl (ValueError ''The specified workflow does not exist.''), d)
      | w # _ \<Rightarrow>
          (let workflow = model_dump (workflow_fields w) [];
               workflow_agent_links = dbmanager_get (workflow_agent d) (by_workflow_id workflow_id)
           in case sequence (map (linked_agent depth d) workflow_agent_links) of
                Inl e \<Rightarrow> (Inl e, d)
              | Inr agents \<Rightarrow>
                  (case map_of workflow ''type'' of
                     None \<Rightarrow> (Inl KeyError, d)
                   | Some t \<Rightarrow>
                       if t = JStr WorkFlowType_sequential then
                         (case sorted_by_sequence_id agents of
                            Inl e \<Rightarrow> (Inl e, d)
                          | Inr agents \<Rightarrow> (Inr (JDict (AList.update ''agents'' (JList agents) workflow)), d))
                       else (Inr (JDict (AList.update ''agents'' (JList agents) workflow)), d))))"

section \<open>run_migration\<close>

text \<open>
  The migration framework and the database connection are outside this module. An
  execution of \<open>run_migration\<close> is determined by what each of its calls into them
  does: return (\<open>None\<close>) or raise. \<open>run_migration\<close> returns its result together with the
  calls and log messages it made, in order. A message built with an f-string is
  recorded by its literal part and the exception it interpolates. Setting up the engine
  and the configuration, \<open>print\<close> and the writes to the log buffer are not part of the
  model. The function is given in the three parts that its \<open>try\<close> blocks make.
\<close>

record alembic =
  session_exec_raises :: "error option"
  ensure_version_raises :: "error option"
  initial_upgrade_raises :: "error option"
  first_check_raises :: "error option"
  upgrade_raises :: "error option"
  second_check_raises :: "error option"

datatype event =
    session_exec string
  | command_ensure_version
  | command_upgrade string
  | command_check
  | time_sleep nat
  | logger_info string "error option"
  | logger_error string "error option"

text \<open>Lines 100 to 118: the query of the version table and, when it fails, the
  initialization. \<open>Inl\<close> is the failed initialization, with the calls made so far.\<close>

definition initialize_alembic :: "alembic \<Rightarrow> event list + event list" where
  "initialize_alembic env =
     (let should_initialize_alembic = (session_exec_raises env \<noteq> None);
          trace = [session_exec ''SELECT * FROM alembic_version'',
                   if should_initialize_alembic
                   then logger_info ''Alembic not initialized'' None
                   else logger_info ''Alembic already initialized'' None]
      in if should_initialize_alembic then
           (case ensure_version_raises env of
              Some exc \<Rightarrow>
                Inl (trace @ [logger_info ''Initializing alembic'' None, command_ensure_version,
                              logger_error ''Error initializing alembic: '' (Some exc)])
            | None \<Rightarrow>
                (case initial_upgrade_raises env of
                   Some exc \<Rightarrow>
                     Inl (trace @ [logger_info ''Initializing alembic'' None, command_ensure_version,
                                   command_upgrade ''head'',
                                   logger_error ''Error initializing alembic: '' (Some exc)])
                 | None \<Rightarrow>
                     Inr (trace @ [logger_info ''Initializing alembic'' None, command_ensure_version,
                                   command_upgrade ''head'', logger_info ''Alembic initialized'' None])))
         else Inr trace)"

text \<open>Lines 122 to 131: the first check and, when it raises one of the migration
  framework's two exceptions, the upgrade. Nothing leaves this block.\<close>

definition check_and_upgrade :: "alembic \<Rightarrow> event list" where
  "check_and_upgrade env =
     (case first_check_raises env of
        None \<Rightarrow> [command_check]
      | Some exc \<Rightarrow>
          if exc = CommandError \<or> exc = AutogenerateDiffsDetected then
            (case upgrade_raises env of
               None \<Rightarrow> [command_check, command_upgrade ''head'', time_sleep 3]
             | Some exc \<Rightarrow>
                 [command_check, command_upgrade ''head'',
                  logger_error ''Error running migrations: '' (Some exc)])
          else [command_check])"

text \<open>Lines 133 to 142: the second check, with handlers for the migration framework's
  two exceptions only.\<close>

definition check_again :: "alembic \<Rightarrow> (error + unit) \<times> event list" where
  "check_again env =
     (case second_check_raises env of
        None \<Rightarrow> (Inr (), [command_check])
      | Some exc \<Rightarrow>
          if exc = AutogenerateDiffsDetected then
            (Inr (), [command_check, logger_info ''AutogenerateDiffsDetected: '' (Some exc)])
          else if exc = CommandError then
            (Inr (), [command_check, logger_error ''CommandError: '' (Some exc)])
          else (Inl exc, [command_check]))"

definition run_migration :: "alembic \<Rightarrow> (error + unit) \<times> event list" where
  "run_migration env =
     (case initialize_alembic env of
        Inl trace \<Rightarrow> (Inl (RuntimeError ''Error initializing alembic''), trace)
      | Inr trace \<Rightarrow>
          (let trace = trace @ [logger_info ''Running DB migrations in '' None];
               trace = trace @ check_and_upgrade env
           in (fst (check_again env), trace @ snd (check_again env))))"

section \<open>init_db_samples\<close>

text \<open>
  The sample objects, with the keyword arguments the source gives them. Columns that
  the source leaves to the defaults of \<open>..datamodel\<close> are not represented, except the
  workflow type, which \<open>workflow_from_id\<close> reads: its default is the parameter
  \<open>WorkFlowType_default\<close>. \<open>AssistantAgent.DEFAULT_SYSTEM_MESSAGE\<close> belongs to the
  \<open>autogen\<close> package and is the parameter \<open>DEFAULT_SYSTEM_MESSAGE\<close>. Members of
  \<open>AgentType\<close> and \<open>CodeExecutionConfigTypes\<close> are written by their names.
\<close>

definition generate_pdf_skill_content :: string where
  \<open>generate_pdf_skill_content = ''import uuid\<newline>import requests\<newline>from fpdf import FPDF\<newline>from typing import List, Dict, Optional\<newline>from pathlib import Path\<newline>from PIL import Image, ImageDraw, ImageOps\<newline>from io import BytesIO\<newline>\<newline>def generate_and_save_pdf(\<newline>    sections: List[Dict[str, Optional[str]]], \<newline>    output_file: str = "report.pdf", \<newline>    report_title: str = "PDF Report"\<newline>) -> None:\<newline>    """\<newline>    Function to generate a beautiful PDF report in A4 paper format. \<newline>\<newline>    :param sections: A list of sections where each section is represented by a dictionary containing:\<newline>                     - title: The title of the section.\<newline>                     - level: The heading level (e.g., "title", "h1", "h2").\<newline>                     - content: The content or body text of the section.\<newline>                     - image: (Optional) The URL or local path to the image.\<newline>    :param output_file: The name of the output PDF file. (default is "report.pdf")\<newline>    :param report_title: The title of the report. (default is "PDF Report")\<newline>    :return: None\<newline>    """\<newline>\<newline>    def get_image(image_url_or_path):\<newline>        if image_url_or_path.startswith("http://") or image_url_or_path.startswith("https://"):\<newline>            response = requests.get(image_url_or_path)\<newline>            if response.status_code == 200:\<newline>                return BytesIO(response.content)\<newline>        elif Path(image_url_or_path).is_file():\<newline>            return open(image_url_or_path, 'rb')\<newline>        return None\<newline>\<newline>    def add_rounded_corners(img, radius=6):\<newline>        mask = Image.new('L', img.size, 0)\<newline>        draw = ImageDraw.Draw(mask)\<newline>        draw.rounded_rectangle([(0, 0), img.size], radius, fill=255)\<newline>        img = ImageOps.fit(img, mask.size, centering=(0.5, 0.5))\<newline>        img.putalpha(mask)\<newline>        return img\<newline>\<newline>    class PDF(FPDF):\<newline>        def header(self):\<newline>            self.set_font("Arial", "B", 12)\<newline>            self.cell(0, 10, report_title, 0, 1, "C")\<newline>            \<newline>        def chapter_title(self, txt): \<newline>            self.set_font("Arial", "B", 12)\<newline>            self.cell(0, 10, txt, 0, 1, "L")\<newline>            self.ln(2)\<newline>        \<newline>        def chapter_body(self, body):\<newline>            self.set_font("Arial", "", 12)\<newline>            self.multi_cell(0, 10, body)\<newline>            self.ln()\<newline>\<newline>        def add_image(self, img_data):\<newline>            img = Image.open(img_data)\<newline>            img = add_rounded_corners(img)\<newline>            img_path = Path(f"temp_{uuid.uuid4().hex}.png")\<newline>            img.save(img_path, format="PNG")\<newline>            self.image(str(img_path), x=None, y=None, w=190 if img.width > 190 else img.width)\<newline>            self.ln(10)\<newline>            img_path.unlink()\<newline>\<newline>    pdf = PDF()\<newline>    pdf.add_page()\<newline>    font_size = {"title": 16, "h1": 14, "h2": 12, "body": 12}\<newline>\<newline>    for section in sections:\<newline>        title, level, content, image = section.get("title", ""), section.get("level", "h1"), section.get("content", ""), section.get("image")\<newline>        pdf.set_font("Arial", "B" if level in font_size else "", font_size.get(level, font_size["body"]))\<newline>        pdf.chapter_title(title)\<newline>\<newline>        if content: pdf.chapter_body(content)\<newline>        if image:\<newline>            img_data = get_image(image)\<newline>            if img_data:\<newline>                pdf.add_image(img_data)\<newline>                if isinstance(img_data, BytesIO):\<newline>                    img_data.close()\<newline>\<newline>    pdf.output(output_file)\<newline>    print(f"PDF report saved as {output_file}")\<newline>\<newline># # Example usage\<newline># sections = [\<newline>#     {\<newline>#         "title": "Introduction - Early Life",\<newline>#         "level": "h1",\<newline>#         "image": "https://picsum.photos/536/354",\<newline>#         "content": ("Marie Curie was born on 7 November 1867 in Warsaw, Poland. "\<newline>#                     "She was the youngest of five children. Both of her parents were teachers. "\<newline>#                     "Her father was a math and physics instructor, and her mother was the head of a private school. "\<newline>#                     "Marie's curiosity and brilliance were evident from an early age."),\<newline>#     },\<newline>#     {\<newline>#         "title": "Academic Accomplishments",\<newline>#         "level": "h2",\<newline>#         "content": ("Despite many obstacles, Marie Curie earned degrees in physics and mathematics from the University of Paris. "\<newline>#                     "She conducted groundbreaking research on radioactivity, becoming the first woman to win a Nobel Prize. "\<newline>#                     "Her achievements paved the way for future generations of scientists, particularly women in STEM fields."),\<newline>#     },\<newline>#     {\<newline>#         "title": "Major Discoveries",\<newline>#         "level": "h2",\<newline>#         "image": "https://picsum.photos/536/354",\<newline>#         "content": ("One of Marie Curie's most notable discoveries was that of radium and polonium, two radioactive elements. "\<newline>#                     "Her meticulous work not only advanced scientific understanding but also had practical applications in medicine and industry."),\<newline>#     },\<newline>#     {\<newline>#         "title": "Conclusion - Legacy",\<newline>#         "level": "h1",\<newline>#         "content": ("Marie Curie's legacy lives on through her contributions to science, her role as a trailblazer for women in STEM, "\<newline>#                     "and the ongoing impact of her discoveries on modern medicine and technology. "\<newline>#                     "Her life and work remain an inspiration to many, demonstrating the power of perseverance and intellectual curiosity."),\<newline>#     },\<newline># ]\<newline>\<newline># generate_and_save_pdf_report(sections, "my_report.pdf", "The Life of Marie Curie")''\<close>

definition generate_image_skill_content :: string where
  \<open>generate_image_skill_content = ''\<newline>from typing import List\<newline>import uuid\<newline>import requests  # to perform HTTP requests\<newline>from pathlib import Path\<newline>\<newline>from openai import OpenAI\<newline>\<newline>\<newline>def generate_and_save_images(query: str, image_size: str = "1024x1024") -> List[str]:\<newline>    """\<newline>    Function to paint, draw or illustrate images based on the users query or request. Generates images from a given query using OpenAI's DALL-E model and saves them to disk.  Use the code below anytime there is a request to create an image.\<newline>\<newline>    :param query: A natural language description of the image to be generated.\<newline>    :param image_size: The size of the image to be generated. (default is "1024x1024")\<newline>    :return: A list of filenames for the saved images.\<newline>    """\<newline>\<newline>    client = OpenAI()  # Initialize the OpenAI client\<newline>    response = client.images.generate(model="dall-e-3", prompt=query, n=1, size=image_size)  # Generate images\<newline>\<newline>    # List to store the file names of saved images\<newline>    saved_files = []\<newline>\<newline>    # Check if the response is successful\<newline>    if response.data:\<newline>        for image_data in response.data:\<newline>            # Generate a random UUID as the file name\<newline>            file_name = str(uuid.uuid4()) + ".png"  # Assuming the image is a PNG\<newline>            file_path = Path(file_name)\<newline>\<newline>            img_url = image_data.url\<newline>            img_response = requests.get(img_url)\<newline>            if img_response.status_code == 200:\<newline>                # Write the binary content to a file\<newline>                with open(file_path, "wb") as img_file:\<newline>                    img_file.write(img_response.content)\<newline>                    print(f"Image saved to {file_path}")\<newline>                    saved_files.append(str(file_path))\<newline>            else:\<newline>                print(f"Failed to download the image from {img_url}")\<newline>    else:\<newline>        print("No image data found in the response!")\<newline>\<newline>    # Return the list of saved files\<newline>    return saved_files\<newline>\<newline>\<newline># Example usage of the function:\<newline># generate_and_save_images("A cute baby sea otter")\<newline>''\<close>

definition google_gemini_model :: "row" where
  \<open>google_gemini_model =
     \<lparr>rid = None,
      rest = [(''model'', JStr ''gemini-1.5-pro-latest''),
              (''description'', JStr ''Google's Gemini model''),
              (''user_id'', JStr ''guestuser@gmail.com''),
              (''api_type'', JStr ''google'')]\<rparr>\<close>

definition azure_model :: "row" where
  \<open>azure_model =
     \<lparr>rid = None,
      rest = [(''model'', JStr ''gpt4-turbo''),
              (''description'', JStr ''Azure OpenAI  model''),
              (''user_id'', JStr ''guestuser@gmail.com''),
              (''api_type'', JStr ''azure''),
              (''base_url'', JStr ''https://api.your azureendpoint.com/v1'')]\<rparr>\<close>

definition zephyr_model :: "row" where
  \<open>zephyr_model =
     \<lparr>rid = None,
      rest = [(''model'', JStr ''zephyr''),
              (''description'', JStr ''Local Huggingface Zephyr model via vLLM, LMStudio or Ollama''),
              (''base_url'', JStr ''http://localhost:1234/v1''),
              (''user_id'', JStr ''guestuser@gmail.com''),
              (''api_type'', JStr ''open_ai'')]\<rparr>\<close>

definition gpt_4_model :: "row" where
  \<open>gpt_4_model =
     \<lparr>rid = None,
      rest = [(''model'', JStr ''gpt-4-1106-preview''),
              (''description'', JStr ''OpenAI GPT-4 model''),
              (''user_id'', JStr ''guestuser@gmail.com''),
              (''api_type'', JStr ''open_ai'')]\<rparr>\<close>

definition generate_pdf_skill :: "row" where
  \<open>generate_pdf_skill =
     \<lparr>rid = None,
      rest = [(''name'', JStr ''generate_and_save_pdf''),
              (''description'', JStr ''Generate and save a pdf file based on the provided input sections.''),
              (''user_id'', JStr ''guestuser@gmail.com''),
              (''libraries'', JList [JStr ''requests'', JStr ''fpdf'', JStr ''PIL'']),
              (''content'', JStr generate_pdf_skill_content)]\<rparr>\<close>

definition generate_image_skill :: "row" where
  \<open>generate_image_skill =
     \<lparr>rid = None,
      rest = [(''name'', JStr ''generate_and_save_images''),
              (''secrets'', JList [JDict [(''secret'', JStr ''OPENAI_API_KEY''), (''value'', JNull)]]),
              (''libraries'', JList [JStr ''openai'']),
              (''description'', JStr ''Generate and save images based on a user's query.''),
              (''content'', JStr generate_image_skill_content),
              (''user_id'', JStr ''guestuser@gmail.com'')]\<rparr>\<close>

definition planner_assistant_config :: "dict" where
  \<open>planner_assistant_config =
     [(''name'', JStr ''planner_assistant''),
      (''description'', JStr ''Assistant Agent''),
      (''human_input_mode'', JStr ''NEVER''),
      (''max_consecutive_auto_reply'', JInt 25),
      (''system_message'', JStr ''You are a helpful assistant that can suggest a travel plan for a user and utilize any context information provided. You are the primary cordinator who will receive suggestions or advice from other agents (local_assistant, language_assistant). You must ensure that the finally plan integrates the suggestions from other agents or team members. YOUR FINAL RESPONSE MUST BE THE COMPLETE PLAN. When the plan is complete and all perspectives are integrated, you can respond with TERMINATE.''),
      (''code_execution_config'', JStr ''none''),
      (''llm_config'', JDict [])]\<close>

definition planner_assistant :: "agent_row" where
  \<open>planner_assistant =
     \<lparr>rid = None,
      rest = [(''user_id'', JStr ''guestuser@gmail.com'')],
      atype = ''assistant'',
      config = model_dump planner_assistant_config []\<rparr>\<close>

definition local_assistant_config :: "dict" where
  \<open>local_assistant_config =
     [(''name'', JStr ''local_assistant''),
      (''description'', JStr ''Local Assistant Agent''),
      (''human_input_mode'', JStr ''NEVER''),
      (''max_consecutive_auto_reply'', JInt 25),
      (''system_message'', JStr ''You are a local assistant that can suggest local activities or places to visit for a user and can utilize any context information provided. You can suggest local activities, places to visit, restaurants to eat at, etc. You can also provide information about the weather, local events, etc. You can provide information about the local area, but you cannot suggest a complete travel plan. You can only provide information about the local area.''),
      (''code_execution_config'', JStr ''none''),
      (''llm_config'', JDict [])]\<close>

definition local_assistant :: "agent_row" where
  \<open>local_assistant =
     \<lparr>rid = None,
      rest = [(''user_id'', JStr ''guestuser@gmail.com'')],
      atype = ''assistant'',
      config = model_dump local_assistant_config []\<rparr>\<close>

definition language_assistant_config :: "dict" where
  \<open>language_assistant_config =
     [(''name'', JStr ''language_assistant''),
      (''description'', JStr ''Language Assistant Agent''),
      (''human_input_mode'', JStr ''NEVER''),
      (''max_consecutive_auto_reply'', JInt 25),
      (''system_message'', JStr ''You are a helpful assistant that can review travel plans, providing feedback on important/critical tips about how best to address language or communication challenges for the given destination. If the plan already includes language tips, you can mention that the plan is satisfactory, with rationale.''),
      (''code_execution_config'', JStr ''none''),
      (''llm_config'', JDict [])]\<close>

definition language_assistant :: "agent_row" where
  \<open>language_assistant =
     \<lparr>rid = None,
      rest = [(''user_id'', JStr ''guestuser@gmail.com'')],
      atype = ''assistant'',
      config = model_dump language_assistant_config []\<rparr>\<close>

definition travel_groupchat_config :: "dict" where
  \<open>travel_groupchat_config =
     [(''name'', JStr ''travel_groupchat''),
      (''admin_name'', JStr ''groupchat''),
      (''description'', JStr ''Group Chat Agent Configuration''),
      (''human_input_mode'', JStr ''NEVER''),
      (''max_consecutive_auto_reply'', JInt 25),
      (''system_message'', JStr ''You are a group chat manager''),
      (''code_execution_config'', JStr ''none''),
      (''default_auto_reply'', JStr ''TERMINATE''),
      (''llm_config'', JDict []),
      (''speaker_selection_method'', JStr ''auto'')]\<close>

definition travel_groupchat_agent :: "agent_row" where
  \<open>travel_groupchat_agent =
     \<lparr>rid = None,
      rest = [(''user_id'', JStr ''guestuser@gmail.com'')],
      atype = ''groupchat'',
      config = model_dump travel_groupchat_config []\<rparr>\<close>

definition user_proxy_config :: "dict" where
  \<open>user_proxy_config =
     [(''name'', JStr ''user_proxy''),
      (''description'', JStr ''User Proxy Agent Configuration''),
      (''human_input_mode'', JStr ''NEVER''),
      (''max_consecutive_auto_reply'', JInt 25),
      (''system_message'', JStr ''You are a helpful assistant''),
      (''code_execution_config'', JStr ''local''),
      (''default_auto_reply'', JStr ''TERMINATE''),
      (''llm_config'', JBool False)]\<close>

definition user_proxy :: "agent_row" where
  \<open>user_proxy =
     \<lparr>rid = None,
      rest = [(''user_id'', JStr ''guestuser@gmail.com'')],
      atype = ''userproxy'',
      config = model_dump user_proxy_config []\<rparr>\<close>

definition default_assistant_config :: "string \<Rightarrow> dict" where
  \<open>default_assistant_config DEFAULT_SYSTEM_MESSAGE =
     [(''name'', JStr ''default_assistant''),
      (''description'', JStr ''Assistant Agent''),
      (''human_input_mode'', JStr ''NEVER''),
      (''max_consecutive_auto_reply'', JInt 25),
      (''system_message'', JStr DEFAULT_SYSTEM_MESSAGE),
      (''code_execution_config'', JStr ''none''),
      (''llm_config'', JDict [])]\<close>

definition default_assistant :: "string \<Rightarrow> agent_row" where
  \<open>default_assistant DEFAULT_SYSTEM_MESSAGE =
     \<lparr>rid = None,
      rest = [(''user_id'', JStr ''guestuser@gmail.com'')],
      atype = ''assistant'',
      config = model_dump (default_assistant_config DEFAULT_SYSTEM_MESSAGE) []\<rparr>\<close>

definition travel_workflow :: "string \<Rightarrow> workflow_row" where
  \<open>travel_workflow WorkFlowType_default =
     \<lparr>rid = None,
      rest = [(''description'', JStr ''Travel workflow''),
              (''user_id'', JStr ''guestuser@gmail.com''),
              (''sample_tasks'', JList [JStr ''Plan a 3 day trip to Hawaii Islands.'', JStr ''Plan an eventful and exciting trip to  Uzbeksitan.''])],
      wname = ''Travel Planning Workflow'',
      wtype = WorkFlowType_default\<rparr>\<close>

definition default_workflow :: "string \<Rightarrow> workflow_row" where
  \<open>default_workflow WorkFlowType_default =
     \<lparr>rid = None,
      rest = [(''description'', JStr ''Default workflow''),
              (''user_id'', JStr ''guestuser@gmail.com''),
              (''sample_tasks'', JList [JStr ''paint a picture of a glass of ethiopian coffee, freshly brewed in a tall glass cup, on a table right in front of a lush green forest scenery'', JStr ''Plot the stock price of NVIDIA YTD.''])],
      wname = ''Default Workflow'',
      wtype = WorkFlowType_default\<rparr>\<close>

text \<open>
  Modelled from the spec: \<open>Session.add\<close> and \<open>Session.commit\<close> of the ORM. The rows added
  to the session are inserted in the order of the \<open>add\<close> calls, each with the next free
  id of its table, which is the \<open>id\<close> the object shows after the commit;
  \<open>session_commit\<close> ends the transaction.
\<close>

datatype entity = Model row | Skill row | Agent agent_row | Workflow workflow_row

definition next_id :: "'a row_scheme list \<Rightarrow> int" where
  "next_id table = foldr (\<lambda>r m. max (case rid r of None \<Rightarrow> 0 | Some i \<Rightarrow> i) m) table 0 + 1"

definition session_add :: "entity \<Rightarrow> db \<Rightarrow> int \<times> db" where
  "session_add obj d =
     (case obj of
        Model r \<Rightarrow>
          (let i = next_id (model_rows d) in (i, d\<lparr>model_rows := model_rows d @ [r\<lparr>rid := Some i\<rparr>]\<rparr>))
      | Skill r \<Rightarrow>
          (let i = next_id (skill_rows d) in (i, d\<lparr>skill_rows := skill_rows d @ [r\<lparr>rid := Some i\<rparr>]\<rparr>))
      | Agent r \<Rightarrow>
          (let i = next_id (agent_rows d) in (i, d\<lparr>agent_rows := agent_rows d @ [r\<lparr>rid := Some i\<rparr>]\<rparr>))
      | Workflow r \<Rightarrow>
          (let i = next_id (workflow_rows d) in (i, d\<lparr>workflow_rows := workflow_rows d @ [r\<lparr>rid := Some i\<rparr>]\<rparr>)))"

definition session_commit :: "db \<Rightarrow> db" where
  "session_commit d = d\<lparr>commits := commits d + 1\<rparr>"

text \<open>Modelled from the spec: \<open>dbmanager.link\<close> creates the many-to-many link of the
  given type between the two ids; a link of a workflow to an agent carries the agent's
  role.\<close>

definition dbmanager_link :: "string \<Rightarrow> int \<Rightarrow> int \<Rightarrow> string option \<Rightarrow> db \<Rightarrow> db" where
  "dbmanager_link link_type primary_id secondary_id agent_type d =
     (if link_type = ''agent_model'' then d\<lparr>agent_model := agent_model d @ [(primary_id, secondary_id)]\<rparr>
      else if link_type = ''agent_skill'' then d\<lparr>agent_skill := agent_skill d @ [(primary_id, secondary_id)]\<rparr>
      else if link_type = ''agent_agent'' then d\<lparr>agent_agent := agent_agent d @ [(primary_id, secondary_id)]\<rparr>
      else if link_type = ''workflow_agent'' then
        d\<lparr>workflow_agent := workflow_agent d @
            [\<lparr>link_workflow_id = primary_id, link_agent_id = secondary_id,
              link_agent_type = agent_type, link_sequence_id = 0, link_rest = []\<rparr>]\<rparr>
      else d)"

definition no_filters :: "'a \<Rightarrow> bool" where
  "no_filters r = True"

definition init_db_samples :: "string \<Rightarrow> string \<Rightarrow> db \<Rightarrow> db" where
  "init_db_samples DEFAULT_SYSTEM_MESSAGE WorkFlowType_default d =
     (let workflows = dbmanager_get (workflow_rows d) no_filters;
          workflow_names = map wname workflows
      in if ''Default Workflow'' \<in> set workflow_names \<and>
            ''Travel Planning Workflow'' \<in> set workflow_names
         then d
         else
           (let (zephyr_model_id, s) = session_add (Model zephyr_model) d;
                (google_gemini_model_id, s) = session_add (Model google_gemini_model) s;
                (azure_model_id, s) = session_add (Model azure_model) s;
                (gpt_4_model_id, s) = session_add (Model gpt_4_model) s;
                (generate_image_skill_id, s) = session_add (Skill generate_image_skill) s;
                (generate_pdf_skill_id, s) = session_add (Skill generate_pdf_skill) s;
                (user_proxy_id, s) = session_add (Agent user_proxy) s;
                (default_assistant_id, s) =
                   session_add (Agent (default_assistant DEFAULT_SYSTEM_MESSAGE)) s;
                (travel_groupchat_agent_id, s) = session_add (Agent travel_groupchat_agent) s;
                (planner_assistant_id, s) = session_add (Agent planner_assistant) s;
                (local_assistant_id, s) = session_add (Agent local_assistant) s;
                (language_assistant_id, s) = session_add (Agent language_assistant) s;
                (travel_workflow_id, s) = session_add (Workflow (travel_workflow WorkFlowType_default)) s;
                (default_workflow_id, s) = session_add (Workflow (default_workflow WorkFlowType_default)) s;
                s = session_commit s;
                s = dbmanager_link ''agent_model'' default_assistant_id gpt_4_model_id None s;
                s = dbmanager_link ''agent_skill'' default_assistant_id generate_image_skill_id None s;
                s = dbmanager_link ''workflow_agent'' default_workflow_id user_proxy_id (Some ''sender'') s;
                s = dbmanager_link ''workflow_agent'' default_workflow_id default_assistant_id
                      (Some ''receiver'') s;
                s = dbmanager_link ''agent_agent'' travel_groupchat_agent_id planner_assistant_id None s;
                s = dbmanager_link ''agent_agent'' travel_groupchat_agent_id local_assistant_id None s;
                s = dbmanager_link ''agent_agent'' travel_groupchat_agent_id language_assistant_id None s;
                s = dbmanager_link ''agent_agent'' travel_groupchat_agent_id user_proxy_id None s;
                s = dbmanager_link ''agent_model'' travel_groupchat_agent_id gpt_4_model_id None s;
                s = dbmanager_link ''agent_model'' planner_assistant_id gpt_4_model_id None s;
                s = dbmanager_link ''agent_model'' local_assistant_id gpt_4_model_id None s;
                s = dbmanager_link ''agent_model'' language_assistant_id gpt_4_model_id None s;
                s = dbmanager_link ''workflow_agent'' travel_workflow_id user_proxy_id (Some ''sender'') s;
                s = dbmanager_link ''workflow_agent'' travel_workflow_id travel_groupchat_agent_id
                      (Some ''receiver'') s
            in s))"

section \<open>Specification predicates and sample data\<close>

subsection \<open>Agents that can be built\<close>

text \<open>
  The \<open>llm_config\<close> that line 68 reads from the dumped config: the stored value, or
  \<open>{}\<close> when the config has none.
\<close>

definition agent_llm_config :: "agent_row \<Rightarrow> json" where
  "agent_llm_config agent = (case map_of (config agent) ''llm_config'' of None \<Rightarrow> JDict [] | Some v \<Rightarrow> v)"



subsection \<open>The nested object graph\<close>


text \<open>The record \<open>{"agent": ..., "link": ...}\<close> of a link and the value built for its
  agent, and the order of the records in the result.\<close>

definition agent_record :: "link_row \<times> json \<Rightarrow> json" where
  "agent_record p = JDict [(''agent'', snd p), (''link'', JDict (link_fields (fst p)))]"

definition in_order :: "workflow_row \<Rightarrow> (link_row \<times> json) list \<Rightarrow> (link_row \<times> json) list" where
  "in_order w ps =
     (if wtype w = WorkFlowType_sequential then sort_key (\<lambda>p. link_sequence_id (fst p)) ps else ps)"

definition record_link :: "json \<Rightarrow> json option" where
  "record_link x = (case x of JDict r \<Rightarrow> map_of r ''link'' | _ \<Rightarrow> None)"

subsection \<open>Sample data\<close>

definition sample_db :: db where
  "sample_db =
     \<lparr>model_rows = [\<lparr>rid = Some 1, rest = [(''model'', JStr ''gpt-4''), (''user_id'', JStr ''u'')]\<rparr>],
      skill_rows = [\<lparr>rid = Some 1, rest = [(''name'', JStr ''fetch'')]\<rparr>],
      agent_rows =
        [\<lparr>rid = Some 1, rest = [], atype = ''userproxy'', config = [(''llm_config'', JBool False)]\<rparr>,
         \<lparr>rid = Some 2, rest = [(''max_round'', JInt 3)], atype = ''assistant'',
            config = [(''name'', JStr ''helper''), (''llm_config'', JDict [(''temperature'', JInt 0)])]\<rparr>,
         \<lparr>rid = Some 3, rest = [(''max_round'', JInt 3)], atype = ''groupchat'', config = []\<rparr>],
      workflow_rows =
        [\<lparr>rid = Some 1, rest = [], wname = ''first'', wtype = ''sequential''\<rparr>,
         \<lparr>rid = Some 2, rest = [], wname = ''second'', wtype = ''autonomous''\<rparr>],
      agent_model = [(2, 1)],
      agent_skill = [(2, 1)],
      agent_agent = [(3, 2), (3, 1)],
      workflow_agent =
        [\<lparr>link_workflow_id = 1, link_agent_id = 3, link_agent_type = Some ''receiver'',
           link_sequence_id = 1, link_rest = []\<rparr>,
         \<lparr>link_workflow_id = 2, link_agent_id = 3, link_agent_type = Some ''receiver'',
           link_sequence_id = 1, link_rest = []\<rparr>,
         \<lparr>link_workflow_id = 1, link_agent_id = 1, link_agent_type = Some ''sender'',
           link_sequence_id = 0, link_rest = []\<rparr>,
         \<lparr>link_workflow_id = 2, link_agent_id = 1, link_agent_type = Some ''sender'',
           link_sequence_id = 0, link_rest = []\<rparr>],
      commits = 0\<rparr>"



definition empty_db :: db where
  "empty_db =
     \<lparr>model_rows = [], skill_rows = [], agent_rows = [], workflow_rows = [],
      agent_model = [], agent_skill = [], agent_agent = [], workflow_agent = [], commits = 0\<rparr>"

text \<open>A database that holds the two sample workflows by name, and nothing else.\<close>

definition named_db :: db where
  "named_db =
     \<lparr>model_rows = [], skill_rows = [], agent_rows = [],
      workflow_rows =
        [\<lparr>rid = Some 1, rest = [], wname = ''Travel Planning Workflow'', wtype = ''autonomous''\<rparr>,
         \<lparr>rid = Some 2, rest = [], wname = ''Default Workflow'', wtype = ''autonomous''\<rparr>],
      agent_model = [], agent_skill = [], agent_agent = [], workflow_agent = [], commits = 0\<rparr>"

text \<open>
  Executions of \<open>run_migration\<close>. \<open>env_initialized\<close>: the version table exists and
  every call returns. \<open>env_fresh\<close>: the query of the version table fails and the
  initialization succeeds. \<open>env_init_fails\<close>: the query fails and the first upgrade
  raises. \<open>env_mismatch\<close>: the table exists, both checks detect differences and the
  upgrade fails. \<open>env_unreachable\<close>: the table exists and both checks raise an exception
  that is not one of the migration framework's.
\<close>

definition env_initialized :: alembic where
  "env_initialized =
     \<lparr>session_exec_raises = None, ensure_version_raises = None, initial_upgrade_raises = None,
      first_check_raises = None, upgrade_raises = None, second_check_raises = None\<rparr>"

definition env_fresh :: alembic where
  "env_fresh =
     \<lparr>session_exec_raises = Some OtherException, ensure_version_raises = None,
      initial_upgrade_raises = None, first_check_raises = None, upgrade_raises = None,
      second_check_raises = None\<rparr>"

definition env_init_fails :: alembic where
  "env_init_fails =
     \<lparr>session_exec_raises = Some OtherException, ensure_version_raises = None,
      initial_upgrade_raises = Some CommandError, first_check_raises = None, upgrade_raises = None,
      second_check_raises = None\<rparr>"

definition env_mismatch :: alembic where
  "env_mismatch =
     \<lparr>session_exec_raises = None, ensure_version_raises = None, initial_upgrade_raises = None,
      first_check_raises = Some AutogenerateDiffsDetected, upgrade_raises = Some CommandError,
      second_check_raises = Some AutogenerateDiffsDetected\<rparr>"


section \<open>Properties of the building blocks\<close>


lemma sequence_map_Inr:
  "sequence (map f xs) = Inr vs \<Longrightarrow> list_all2 (\<lambda>x v. f x = Inr v) xs vs"
  by (induction xs arbitrary: vs) (auto split: sum.splits)

lemma sequence_map_all:
  "list_all2 (\<lambda>x v. f x = Inr v) xs vs \<Longrightarrow> sequence (map f xs) = Inr vs"
  by (induction xs vs rule: list_all2_induct) auto

lemma map_of_model_dump:
  "map_of (model_dump flds exclude) k = (if k \<in> set exclude then None else map_of flds k)"
  by (induction flds) (auto simp: model_dump_def)

lemma model_dump_Nil: "model_dump flds [] = flds"
  by (induction flds) (auto simp: model_dump_def)

lemma keys_model_dump: "fst ` set (model_dump flds exclude) = fst ` set flds - set exclude"
  by (auto simp: model_dump_def image_iff)

lemma dump_agent_config: "map_of (dump_agent agent) ''config'' = Some (JDict (config agent))"
  by (simp add: dump_agent_def Let_def map_of_model_dump agent_fields_def)

lemma map_of_update_other: "k \<noteq> k' \<Longrightarrow> map_of (AList.update k v al) k' = map_of al k'"
  by (simp add: update_conv')


lemma set_config_list_other:
  "set_config_list agent_dict ms = Inr agent_dict' \<Longrightarrow> k \<noteq> ''config'' \<Longrightarrow>
     map_of agent_dict' k = map_of agent_dict k"
  by (auto simp: set_config_list_def Let_def update_conv' split: if_splits option.splits json.splits)





lemma get_agent_Inr:
  assumes "get_agent depth d agent_id = Inr j"
  obtains n agent others agent_dict sub_agents where
    "depth = Suc n"
    "dbmanager_get (agent_rows d) (by_id agent_id) = agent # others"
    "set_config_list
       (AList.update ''models'' (JList (map (\<lambda>model. JDict (row_fields model)) (agent_models d agent)))
         (AList.update ''skills'' (JList (map (\<lambda>skill. JSkill (row_fields skill)) (agent_skills d agent)))
           (dump_agent agent)))
       (map (\<lambda>model. JDict (model_dump (row_fields model) model_exclude)) (agent_models d agent))
     = Inr agent_dict"
    "list_all2 (\<lambda>a sub. get_agent n d (rid a) = Inr sub) (agent_agents d agent) sub_agents"
    "j = JDict (AList.update ''agents'' (JList sub_agents) agent_dict)"
proof (cases depth)
  case 0
  with assms show ?thesis by simp
next
  case (Suc n)
  show ?thesis
  proof (cases "dbmanager_get (agent_rows d) (by_id agent_id)")
    case Nil
    with assms Suc show ?thesis by simp
  next
    case (Cons agent others)
    with assms Suc that show ?thesis
      by (auto simp: Let_def model_dump_Nil split: sum.splits dest!: sequence_map_Inr)
  qed
qed






lemma insort_key_map:
  "insort_key f (h x) (map h xs) = map h (insort_key (\<lambda>y. f (h y)) x xs)"
  by (induction xs) auto

lemma sort_key_map: "sort_key f (map h xs) = map h (sort_key (\<lambda>y. f (h y)) xs)"
  by (induction xs) (auto simp: insort_key_map)

lemma those_map_Some: "those (map (\<lambda>x. Some (f x)) xs) = Some (map f xs)"
  by (induction xs) auto

lemma sequence_map_Inr_all: "sequence (map (\<lambda>x. Inr (f x)) xs) = Inr (map f xs)"
  by (induction xs) auto

lemma sequence_key_agent_record:
  "sequence_key (agent_record p) = Inr (JInt (link_sequence_id (fst p)))"
  by (simp add: sequence_key_def agent_record_def link_fields_def)

lemma sorted_by_sequence_id_records:
  "sorted_by_sequence_id (map agent_record ps) =
     Inr (map agent_record (sort_key (\<lambda>p. link_sequence_id (fst p)) ps))"
proof -
  have keys: "sequence (map sequence_key (map agent_record ps)) =
      Inr (map (\<lambda>p. JInt (link_sequence_id (fst p))) ps)"
    by (simp add: o_def sequence_key_agent_record sequence_map_Inr_all)
  have ints: "those (map int_key (map (\<lambda>p. JInt (link_sequence_id (fst p))) ps)) =
      Some (map (\<lambda>p. link_sequence_id (fst p)) ps)"
    by (simp add: o_def those_map_Some)
  have zipped: "zip (map (\<lambda>p. link_sequence_id (fst p)) ps) (map agent_record ps) =
      map (\<lambda>p. (link_sequence_id (fst p), agent_record p)) ps"
    by (induction ps) auto
  show ?thesis
    unfolding sorted_by_sequence_id_def keys sum.case ints option.case zipped
    by (simp add: sort_key_map o_def)
qed

lemma linked_agent_Inr:
  "linked_agent depth d link = Inr x \<longleftrightarrow>
     (\<exists>a. get_agent depth d (Some (link_agent_id link)) = Inr a \<and> x = agent_record (link, a))"
  by (auto simp: linked_agent_def agent_record_def model_dump_Nil split: sum.splits)

lemma linked_agents_Inr:
  "sequence (map (linked_agent depth d) links) = Inr agents \<longleftrightarrow>
     (\<exists>dicts. list_all2 (\<lambda>link a. get_agent depth d (Some (link_agent_id link)) = Inr a) links dicts \<and>
        agents = map agent_record (zip links dicts))"
proof (induction links arbitrary: agents)
  case Nil
  show ?case by auto
next
  case (Cons link links)
  show ?case
  proof
    assume "sequence (map (linked_agent depth d) (link # links)) = Inr agents"
    then obtain x xs where x: "linked_agent depth d link = Inr x"
      and xs: "sequence (map (linked_agent depth d) links) = Inr xs" and agents: "agents = x # xs"
      by (auto split: sum.splits)
    from x obtain a where a: "get_agent depth d (Some (link_agent_id link)) = Inr a"
      "x = agent_record (link, a)"
      by (auto simp: linked_agent_Inr)
    from xs Cons.IH obtain dicts where
      "list_all2 (\<lambda>link a. get_agent depth d (Some (link_agent_id link)) = Inr a) links dicts"
      "xs = map agent_record (zip links dicts)"
      by blast
    with a agents show "\<exists>dicts. list_all2 (\<lambda>link a. get_agent depth d (Some (link_agent_id link)) = Inr a)
        (link # links) dicts \<and> agents = map agent_record (zip (link # links) dicts)"
      by (intro exI [of _ "a # dicts"]) simp
  next
    assume "\<exists>dicts. list_all2 (\<lambda>link a. get_agent depth d (Some (link_agent_id link)) = Inr a)
        (link # links) dicts \<and> agents = map agent_record (zip (link # links) dicts)"
    then obtain a dicts where
      a: "get_agent depth d (Some (link_agent_id link)) = Inr a"
      and rest: "list_all2 (\<lambda>link a. get_agent depth d (Some (link_agent_id link)) = Inr a) links dicts"
      and agents: "agents = agent_record (link, a) # map agent_record (zip links dicts)"
      by (auto simp: list_all2_Cons1)
    from rest Cons.IH have "sequence (map (linked_agent depth d) links) = Inr (map agent_record (zip links dicts))"
      by blast
    moreover from a have "linked_agent depth d link = Inr (agent_record (link, a))"
      by (simp add: linked_agent_Inr)
    ultimately show "sequence (map (linked_agent depth d) (link # links)) = Inr agents"
      using agents by simp
  qed
qed

lemma workflow_type: "map_of (workflow_fields w) ''type'' = Some (JStr (wtype w))"
  by (simp add: workflow_fields_def)

text \<open>The result of \<open>workflow_from_id\<close> in one equation, for a workflow that has a row.\<close>

lemma workflow_from_id_found:
  assumes "dbmanager_get (workflow_rows d) (by_id (Some workflow_id)) = w # others"
  shows "workflow_from_id depth workflow_id d =
     (case sequence (map (linked_agent depth d)
              (dbmanager_get (workflow_agent d) (by_workflow_id workflow_id))) of
        Inl e \<Rightarrow> (Inl e, d)
      | Inr agents \<Rightarrow>
          (if wtype w = WorkFlowType_sequential
           then (case sorted_by_sequence_id agents of
                   Inl e \<Rightarrow> (Inl e, d)
                 | Inr agents \<Rightarrow> (Inr (JDict (AList.update ''agents'' (JList agents) (workflow_fields w))), d))
           else (Inr (JDict (AList.update ''agents'' (JList agents) (workflow_fields w))), d)))"
  using assms by (simp add: workflow_from_id_def Let_def workflow_type model_dump_Nil split: sum.splits)

lemma workflow_from_id_Inr:
  assumes "dbmanager_get (workflow_rows d) (by_id (Some workflow_id)) = w # others"
    and "list_all2 (\<lambda>link a. get_agent depth d (Some (link_agent_id link)) = Inr a)
           (dbmanager_get (workflow_agent d) (by_workflow_id workflow_id)) dicts"
  shows "workflow_from_id depth workflow_id d =
     (Inr (JDict (AList.update ''agents''
        (JList (map agent_record
           (in_order w (zip (dbmanager_get (workflow_agent d) (by_workflow_id workflow_id)) dicts))))
        (workflow_fields w))), d)"
proof -
  from assms(2) have "sequence (map (linked_agent depth d)
        (dbmanager_get (workflow_agent d) (by_workflow_id workflow_id))) =
      Inr (map agent_record (zip (dbmanager_get (workflow_agent d) (by_workflow_id workflow_id)) dicts))"
    by (auto simp: linked_agents_Inr)
  then show ?thesis
    by (simp add: workflow_from_id_found [OF assms(1)] sorted_by_sequence_id_records in_order_def)
qed







section \<open>Properties of workflow_from_id\<close>







lemma record_link_agent_record: "record_link (agent_record p) = Some (JDict (link_fields (fst p)))"
  by (simp add: record_link_def agent_record_def)

lemma map_fst_in_order:
  "length links = length dicts \<Longrightarrow>
     map fst (in_order w (zip links dicts)) =
       (if wtype w = WorkFlowType_sequential then sort_key link_sequence_id links else links)"
  using sort_key_map [of link_sequence_id fst "zip links dicts"]
  by (simp add: in_order_def)

text \<open>
  Claim C8. In the value returned by \<open>workflow_from_id\<close>, the \<open>"agents"\<close> list of a
  workflow of type \<open>"sequential"\<close> is in ascending order of the links' \<open>sequence_id\<close>
  (it is the stable sort of the link rows by that key); for any other type the records
  follow the order in which the WorkflowAgentLink rows were returned.
\<close>

theorem workflow_from_id_agents_order:
  assumes "fst (workflow_from_id depth workflow_id d) = Inr workflow"
  shows "\<exists>w others fields agents.
           dbmanager_get (workflow_rows d) (by_id (Some workflow_id)) = w # others
           \<and> workflow = JDict fields
           \<and> map_of fields ''agents'' = Some (JList agents)
           \<and> (wtype w = WorkFlowType_sequential \<longrightarrow>
                sorted (map link_sequence_id
                  (sort_key link_sequence_id (dbmanager_get (workflow_agent d) (by_workflow_id workflow_id))))
                \<and> map sequence_key agents =
                    map (\<lambda>link. Inr (JInt (link_sequence_id link)))
                      (sort_key link_sequence_id (dbmanager_get (workflow_agent d) (by_workflow_id workflow_id)))
                \<and> map record_link agents =
                    map (\<lambda>link. Some (JDict (link_fields link)))
                      (sort_key link_sequence_id (dbmanager_get (workflow_agent d) (by_workflow_id workflow_id))))
           \<and> (wtype w \<noteq> WorkFlowType_sequential \<longrightarrow>
                map record_link agents =
                  map (\<lambda>link. Some (JDict (link_fields link)))
                    (dbmanager_get (workflow_agent d) (by_workflow_id workflow_id)))"
proof -
  let ?links = "dbmanager_get (workflow_agent d) (by_workflow_id workflow_id)"
  from assms obtain w others where
    row: "dbmanager_get (workflow_rows d) (by_id (Some workflow_id)) = w # others"
    by (cases "dbmanager_get (workflow_rows d) (by_id (Some workflow_id))")
       (auto simp: workflow_from_id_def)
  from assms obtain found where "sequence (map (linked_agent depth d) ?links) = Inr found"
    by (cases "sequence (map (linked_agent depth d) ?links)")
       (auto simp: workflow_from_id_found [OF row])
  then obtain dicts where
    dicts: "list_all2 (\<lambda>link a. get_agent depth d (Some (link_agent_id link)) = Inr a) ?links dicts"
    by (auto simp: linked_agents_Inr)
  then have len: "length ?links = length dicts"
    by (rule list_all2_lengthD)
  let ?agents = "map agent_record (in_order w (zip ?links dicts))"
  let ?fields = "AList.update ''agents'' (JList ?agents) (workflow_fields w)"
  from assms have workflow: "workflow = JDict ?fields"
    by (simp add: workflow_from_id_Inr [OF row dicts])
  have agents: "map_of ?fields ''agents'' = Some (JList ?agents)"
    by (simp add: update_conv')
  have links: "map record_link ?agents =
      map (\<lambda>link. Some (JDict (link_fields link))) (map fst (in_order w (zip ?links dicts)))"
    by (simp add: o_def record_link_agent_record)
  have keys: "map sequence_key ?agents =
      map (\<lambda>link. Inr (JInt (link_sequence_id link))) (map fst (in_order w (zip ?links dicts)))"
    by (simp add: o_def sequence_key_agent_record)
  have "sorted (map link_sequence_id (sort_key link_sequence_id ?links))"
    by (rule sorted_sort_key)
  with links keys show ?thesis
    unfolding map_fst_in_order [OF len]
    by (intro exI [of _ w] exI [of _ others] exI [of _ ?fields] exI [of _ ?agents])
       (simp add: row workflow agents)
qed

theorem workflow_from_id_agents_order_witness:
  "(\<exists>fields agents.
      fst (workflow_from_id 5 1 sample_db) = Inr (JDict fields)
      \<and> map_of fields ''agents'' = Some (JList agents)
      \<and> map sequence_key agents = [Inr (JInt 0), Inr (JInt 1)])
   \<and> (\<exists>fields agents.
      fst (workflow_from_id 5 2 sample_db) = Inr (JDict fields)
      \<and> map_of fields ''agents'' = Some (JList agents)
      \<and> map record_link agents =
          [Some (JDict [(''workflow_id'', JInt 2), (''agent_id'', JInt 3),
                        (''agent_type'', JStr ''receiver''), (''sequence_id'', JInt 1)]),
           Some (JDict [(''workflow_id'', JInt 2), (''agent_id'', JInt 1),
                        (''agent_type'', JStr ''sender''), (''sequence_id'', JInt 0)])])"
proof
  have "\<not> isl (fst (workflow_from_id 5 1 sample_db))"
    by code_simp
  then obtain workflow where returned: "fst (workflow_from_id 5 1 sample_db) = Inr workflow"
    by (cases "fst (workflow_from_id 5 1 sample_db)") auto
  have row: "dbmanager_get (workflow_rows sample_db) (by_id (Some 1)) =
      [\<lparr>rid = Some 1, rest = [], wname = ''first'', wtype = ''sequential''\<rparr>]"
    by (simp add: sample_db_def dbmanager_get_def by_id_def)
  have links: "map (\<lambda>link. Inr (JInt (link_sequence_id link)) :: error + json)
      (sort_key link_sequence_id (dbmanager_get (workflow_agent sample_db) (by_workflow_id 1))) =
      [Inr (JInt 0), Inr (JInt 1)]"
    by (simp add: sample_db_def dbmanager_get_def by_workflow_id_def)
  from workflow_from_id_agents_order [OF returned] row links returned
  show "\<exists>fields agents.
      fst (workflow_from_id 5 1 sample_db) = Inr (JDict fields)
      \<and> map_of fields ''agents'' = Some (JList agents)
      \<and> map sequence_key agents = [Inr (JInt 0), Inr (JInt 1)]"
    by (auto simp: WorkFlowType_sequential_def)
next
  have "\<not> isl (fst (workflow_from_id 5 2 sample_db))"
    by code_simp
  then obtain workflow where returned: "fst (workflow_from_id 5 2 sample_db) = Inr workflow"
    by (cases "fst (workflow_from_id 5 2 sample_db)") auto
  have row: "dbmanager_get (workflow_rows sample_db) (by_id (Some 2)) =
      [\<lparr>rid = Some 2, rest = [], wname = ''second'', wtype = ''autonomous''\<rparr>]"
    by (simp add: sample_db_def dbmanager_get_def by_id_def)
  have links: "map (\<lambda>link. Some (JDict (link_fields link)))
      (dbmanager_get (workflow_agent sample_db) (by_workflow_id 2)) =
      [Some (JDict [(''workflow_id'', JInt 2), (''agent_id'', JInt 3),
                    (''agent_type'', JStr ''receiver''), (''sequence_id'', JInt 1)]),
       Some (JDict [(''workflow_id'', JInt 2), (''agent_id'', JInt 1),
                    (''agent_type'', JStr ''sender''), (''sequence_id'', JInt 0)])]"
    by (simp add: sample_db_def dbmanager_get_def by_workflow_id_def link_fields_def)
  from workflow_from_id_agents_order [OF returned] row links returned
  show "\<exists>fields agents.
      fst (workflow_from_id 5 2 sample_db) = Inr (JDict fields)
      \<and> map_of fields ''agents'' = Some (JList agents)
      \<and> map record_link agents =
          [Some (JDict [(''workflow_id'', JInt 2), (''agent_id'', JInt 3),
                        (''agent_type'', JStr ''receiver''), (''sequence_id'', JInt 1)]),
           Some (JDict [(''workflow_id'', JInt 2), (''agent_id'', JInt 1),
                        (''agent_type'', JStr ''sender''), (''sequence_id'', JInt 0)])]"
    by (auto simp: WorkFlowType_sequential_def)
qed

lemma set_config_list_truthy:
  assumes "set_config_list agent_dict ms = Inr agent_dict'"
    and "map_of agent_dict ''config'' = Some (JDict cfg)"
    and "ms \<noteq> []"
    and "truthy (case map_of cfg ''llm_config'' of None \<Rightarrow> JDict [] | Some v \<Rightarrow> v)"
  shows "\<exists>cfg' llm. map_of agent_dict' ''config'' = Some (JDict cfg')
           \<and> map_of cfg' ''llm_config'' = Some (JDict llm)
           \<and> map_of llm ''config_list'' = Some (JList ms)"
  using assms
  by (cases "case map_of cfg ''llm_config'' of None \<Rightarrow> JDict [] | Some v \<Rightarrow> v")
     (auto simp: set_config_list_def Let_def update_conv' split: if_splits)

lemma set_config_list_no_models: "set_config_list agent_dict [] = Inr agent_dict"
  by (simp add: set_config_list_def)

lemma dump_agent_excluded:
  "atype agent \<noteq> AgentType_groupchat \<Longrightarrow>
     dump_agent agent =
       filter (\<lambda>(k, v). k \<notin> {''admin_name'', ''messages'', ''max_round'', ''speaker_selection_method'',
                               ''allow_repeat_speaker''}) (agent_fields agent)"
  by (auto simp: dump_agent_def model_dump_def intro!: filter_cong)

lemma dump_agent_groupchat:
  "atype agent = AgentType_groupchat \<Longrightarrow> dump_agent agent = agent_fields agent"
  by (simp add: dump_agent_def model_dump_Nil)

text \<open>
  Claim C9. In every agent dictionary that \<open>get_agent\<close> produces inside
  \<open>workflow_from_id\<close>: if the agent has at least one model and the \<open>llm_config\<close> of its
  config is truthy, then \<open>llm_config["config_list"]\<close> is the list of the agent's models
  dumped without \<open>id\<close>, \<open>agent_id\<close>, \<open>created_at\<close>, \<open>updated_at\<close>, \<open>user_id\<close> and
  \<open>description\<close>; if the agent has no models, its config, and so its \<open>llm_config\<close>, is the
  dumped one; the dump of an agent whose type is not groupchat leaves out \<open>admin_name\<close>,
  \<open>messages\<close>, \<open>max_round\<close>, \<open>speaker_selection_method\<close> and \<open>allow_repeat_speaker\<close>, which
  are then absent from the dictionary, and the dump of a groupchat agent leaves out
  nothing.
\<close>

theorem get_agent_config_list:
  assumes "get_agent depth d agent_id = Inr j"
  shows "\<exists>agent others agent_dict.
           dbmanager_get (agent_rows d) (by_id agent_id) = agent # others
           \<and> j = JDict agent_dict
           \<and> (agent_models d agent \<noteq> [] \<and> truthy (agent_llm_config agent) \<longrightarrow>
                (\<exists>cfg llm.
                   map_of agent_dict ''config'' = Some (JDict cfg)
                   \<and> map_of cfg ''llm_config'' = Some (JDict llm)
                   \<and> map_of llm ''config_list'' =
                       Some (JList (map (\<lambda>model. JDict (filter
                          (\<lambda>(k, v). k \<notin> {''id'', ''agent_id'', ''created_at'', ''updated_at'',
                                           ''user_id'', ''description''})
                          (row_fields model))) (agent_models d agent)))))
           \<and> (agent_models d agent = [] \<longrightarrow>
                map_of agent_dict ''config'' = Some (JDict (config agent)))
           \<and> (atype agent \<noteq> AgentType_groupchat \<longrightarrow>
                dump_agent agent =
                  filter (\<lambda>(k, v). k \<notin> {''admin_name'', ''messages'', ''max_round'',
                                          ''speaker_selection_method'', ''allow_repeat_speaker''})
                    (agent_fields agent)
                \<and> (\<forall>k \<in> {''admin_name'', ''messages'', ''max_round'', ''speaker_selection_method'',
                           ''allow_repeat_speaker''}. map_of agent_dict k = None))
           \<and> (atype agent = AgentType_groupchat \<longrightarrow> dump_agent agent = agent_fields agent)"
proof -
  from assms obtain n agent others agent_dict sub_agents where
    row: "dbmanager_get (agent_rows d) (by_id agent_id) = agent # others"
    and cfg: "set_config_list
       (AList.update ''models'' (JList (map (\<lambda>model. JDict (row_fields model)) (agent_models d agent)))
         (AList.update ''skills'' (JList (map (\<lambda>skill. JSkill (row_fields skill)) (agent_skills d agent)))
           (dump_agent agent)))
       (map (\<lambda>model. JDict (model_dump (row_fields model) model_exclude)) (agent_models d agent))
     = Inr agent_dict"
    and j: "j = JDict (AList.update ''agents'' (JList sub_agents) agent_dict)"
    by (elim get_agent_Inr) auto
  let ?dict = "AList.update ''models'' (JList (map (\<lambda>model. JDict (row_fields model)) (agent_models d agent)))
         (AList.update ''skills'' (JList (map (\<lambda>skill. JSkill (row_fields skill)) (agent_skills d agent)))
           (dump_agent agent))"
  let ?final = "AList.update ''agents'' (JList sub_agents) agent_dict"
  have dumped: "map_of ?dict ''config'' = Some (JDict (config agent))"
    by (simp add: update_conv' dump_agent_config)
  have excl: "model_dump flds model_exclude =
      filter (\<lambda>(k, v). k \<notin> {''id'', ''agent_id'', ''created_at'', ''updated_at'',
                              ''user_id'', ''description''}) flds" for flds
    by (auto simp: model_dump_def model_exclude_def intro!: filter_cong)
  have truthy_case: "\<exists>cfg llm.
      map_of ?final ''config'' = Some (JDict cfg)
      \<and> map_of cfg ''llm_config'' = Some (JDict llm)
      \<and> map_of llm ''config_list'' =
          Some (JList (map (\<lambda>model. JDict (filter
             (\<lambda>(k, v). k \<notin> {''id'', ''agent_id'', ''created_at'', ''updated_at'',
                              ''user_id'', ''description''})
             (row_fields model))) (agent_models d agent)))"
    if "agent_models d agent \<noteq> []" "truthy (agent_llm_config agent)"
  proof -
    from that set_config_list_truthy [OF cfg dumped]
    obtain cfg' llm where "map_of agent_dict ''config'' = Some (JDict cfg')"
      "map_of cfg' ''llm_config'' = Some (JDict llm)"
      "map_of llm ''config_list'' =
         Some (JList (map (\<lambda>model. JDict (model_dump (row_fields model) model_exclude)) (agent_models d agent)))"
      by (auto simp: agent_llm_config_def)
    then show ?thesis
      by (simp add: update_conv' excl)
  qed
  have no_models: "map_of ?final ''config'' = Some (JDict (config agent))"
    if "agent_models d agent = []"
    using that cfg dumped by (simp add: set_config_list_no_models update_conv')
  have absent: "map_of ?final k = None"
    if "atype agent \<noteq> AgentType_groupchat"
      "k \<in> {''admin_name'', ''messages'', ''max_round'', ''speaker_selection_method'',
             ''allow_repeat_speaker''}" for k
  proof -
    from that have "map_of (dump_agent agent) k = None"
      by (auto simp: dump_agent_def map_of_model_dump)
    moreover from that(2) have "k \<noteq> ''config''" "k \<noteq> ''skills''" "k \<noteq> ''models''" "k \<noteq> ''agents''"
      by auto
    ultimately show ?thesis
      using set_config_list_other [OF cfg, of k] by (simp add: update_conv')
  qed
  show ?thesis
    apply (rule exI [of _ agent])
    apply (rule exI [of _ others])
    apply (rule exI [of _ ?final])
  proof (intro conjI impI ballI)
    show "dbmanager_get (agent_rows d) (by_id agent_id) = agent # others"
      by (rule row)
    show "j = JDict ?final"
      by (rule j)
    show "map_of ?final ''config'' = Some (JDict (config agent))" if "agent_models d agent = []"
      using that by (rule no_models)
    show "dump_agent agent = agent_fields agent" if "atype agent = AgentType_groupchat"
      using that by (rule dump_agent_groupchat)
    show "dump_agent agent =
        filter (\<lambda>(k, v). k \<notin> {''admin_name'', ''messages'', ''max_round'',
                                ''speaker_selection_method'', ''allow_repeat_speaker''})
          (agent_fields agent)" if "atype agent \<noteq> AgentType_groupchat"
      using that by (rule dump_agent_excluded)
    show "map_of ?final k = None"
      if "atype agent \<noteq> AgentType_groupchat"
        "k \<in> {''admin_name'', ''messages'', ''max_round'', ''speaker_selection_method'',
               ''allow_repeat_speaker''}" for k
      using that by (rule absent)
    show "\<exists>cfg llm.
        map_of ?final ''config'' = Some (JDict cfg)
        \<and> map_of cfg ''llm_config'' = Some (JDict llm)
        \<and> map_of llm ''config_list'' =
            Some (JList (map (\<lambda>model. JDict (filter
               (\<lambda>(k, v). k \<notin> {''id'', ''agent_id'', ''created_at'', ''updated_at'',
                                ''user_id'', ''description''})
               (row_fields model))) (agent_models d agent)))"
      if "agent_models d agent \<noteq> [] \<and> truthy (agent_llm_config agent)"
      using that truthy_case by blast
  qed
qed

theorem get_agent_config_list_witness:
  "\<exists>agent_dict cfg llm.
      get_agent 5 sample_db (Some 2) = Inr (JDict agent_dict)
      \<and> map_of agent_dict ''config'' = Some (JDict cfg)
      \<and> map_of cfg ''llm_config'' = Some (JDict llm)
      \<and> map_of llm ''config_list'' = Some (JList [JDict [(''model'', JStr ''gpt-4'')]])
      \<and> map_of agent_dict ''max_round'' = None"
proof -
  let ?agent = "\<lparr>rid = Some 2, rest = [(''max_round'', JInt 3)], atype = ''assistant'',
      config = [(''name'', JStr ''helper''), (''llm_config'', JDict [(''temperature'', JInt 0)])]\<rparr>"
  have "\<not> isl (get_agent 5 sample_db (Some 2))"
    by code_simp
  then obtain j where returned: "get_agent 5 sample_db (Some 2) = Inr j"
    by (cases "get_agent 5 sample_db (Some 2)") auto
  have row: "dbmanager_get (agent_rows sample_db) (by_id (Some 2)) = [?agent]"
    by (simp add: sample_db_def dbmanager_get_def by_id_def)
  have models: "agent_models sample_db ?agent =
      [\<lparr>rid = Some 1, rest = [(''model'', JStr ''gpt-4''), (''user_id'', JStr ''u'')]\<rparr>]"
    by (simp add: sample_db_def agent_models_def related_def dbmanager_get_def by_id_def)
  have llm: "truthy (agent_llm_config ?agent)"
    by (simp add: agent_llm_config_def)
  have type: "atype ?agent \<noteq> AgentType_groupchat"
    by (simp add: AgentType_groupchat_def)
  from get_agent_config_list [OF returned] obtain agent others agent_dict where
    found: "dbmanager_get (agent_rows sample_db) (by_id (Some 2)) = agent # others"
    and j: "j = JDict agent_dict"
    and config_list: "agent_models sample_db agent \<noteq> [] \<and> truthy (agent_llm_config agent) \<longrightarrow>
        (\<exists>cfg llm.
           map_of agent_dict ''config'' = Some (JDict cfg)
           \<and> map_of cfg ''llm_config'' = Some (JDict llm)
           \<and> map_of llm ''config_list'' =
               Some (JList (map (\<lambda>model. JDict (filter
                  (\<lambda>(k, v). k \<notin> {''id'', ''agent_id'', ''created_at'', ''updated_at'',
                                   ''user_id'', ''description''})
                  (row_fields model))) (agent_models sample_db agent))))"
    and excluded: "atype agent \<noteq> AgentType_groupchat \<longrightarrow>
        (\<forall>k \<in> {''admin_name'', ''messages'', ''max_round'', ''speaker_selection_method'',
                 ''allow_repeat_speaker''}. map_of agent_dict k = None)"
    by blast
  from found row have agent: "agent = ?agent"
    by simp
  from config_list obtain cfg llm' where
    "map_of agent_dict ''config'' = Some (JDict cfg)"
    "map_of cfg ''llm_config'' = Some (JDict llm')"
    "map_of llm' ''config_list'' = Some (JList [JDict [(''model'', JStr ''gpt-4'')]])"
    unfolding agent models using llm by (auto simp: row_fields_def)
  moreover from excluded type have "map_of agent_dict ''max_round'' = None"
    unfolding agent by blast
  ultimately show ?thesis
    using returned j by blast
qed

section \<open>Properties of run_migration\<close>

lemma initialize_alembic_skipped:
  "session_exec_raises env = None \<Longrightarrow>
     initialize_alembic env =
       Inr [session_exec ''SELECT * FROM alembic_version'', logger_info ''Alembic already initialized'' None]"
  by (simp add: initialize_alembic_def)

lemma initialize_alembic_ensure_version_fails:
  "session_exec_raises env = Some e \<Longrightarrow> ensure_version_raises env = Some exc \<Longrightarrow>
     initialize_alembic env =
       Inl [session_exec ''SELECT * FROM alembic_version'', logger_info ''Alembic not initialized'' None,
            logger_info ''Initializing alembic'' None, command_ensure_version,
            logger_error ''Error initializing alembic: '' (Some exc)]"
  by (simp add: initialize_alembic_def)

lemma initialize_alembic_upgrade_fails:
  "session_exec_raises env = Some e \<Longrightarrow> ensure_version_raises env = None \<Longrightarrow>
   initial_upgrade_raises env = Some exc \<Longrightarrow>
     initialize_alembic env =
       Inl [session_exec ''SELECT * FROM alembic_version'', logger_info ''Alembic not initialized'' None,
            logger_info ''Initializing alembic'' None, command_ensure_version, command_upgrade ''head'',
            logger_error ''Error initializing alembic: '' (Some exc)]"
  by (simp add: initialize_alembic_def)

lemma initialize_alembic_done:
  "session_exec_raises env = Some e \<Longrightarrow> ensure_version_raises env = None \<Longrightarrow>
   initial_upgrade_raises env = None \<Longrightarrow>
     initialize_alembic env =
       Inr [session_exec ''SELECT * FROM alembic_version'', logger_info ''Alembic not initialized'' None,
            logger_info ''Initializing alembic'' None, command_ensure_version, command_upgrade ''head'',
            logger_info ''Alembic initialized'' None]"
  by (simp add: initialize_alembic_def)

lemma check_and_upgrade_starts: "\<exists>more. check_and_upgrade env = command_check # more"
  by (simp add: check_and_upgrade_def split: option.splits)

lemma count_check_and_upgrade: "count_list (check_and_upgrade env) command_check = 1"
  by (simp add: check_and_upgrade_def split: option.splits)

lemma count_check_again: "count_list (snd (check_again env)) command_check = 1"
  by (simp add: check_again_def split: option.splits)

lemma ensure_version_check_and_upgrade: "command_ensure_version \<notin> set (check_and_upgrade env)"
  by (simp add: check_and_upgrade_def split: option.splits)

lemma ensure_version_check_again: "command_ensure_version \<notin> set (snd (check_again env))"
  by (simp add: check_again_def split: option.splits)

text \<open>
  Claim C3. \<open>run_migration\<close> first queries the \<open>alembic_version\<close> table. If the query
  fails, it initializes the migration framework (\<open>ensure_version\<close>, then \<open>upgrade\<close> to
  head); when either step fails it raises RuntimeError("Error initializing alembic")
  and checks nothing, otherwise it goes on to the migration check. If the query
  succeeds, it does not initialize, and the migration check is its next call.
\<close>

theorem run_migration_initialization:
  "(session_exec_raises env \<noteq> None \<longrightarrow>
      take 4 (snd (run_migration env)) =
        [session_exec ''SELECT * FROM alembic_version'', logger_info ''Alembic not initialized'' None,
         logger_info ''Initializing alembic'' None, command_ensure_version]
      \<and> (ensure_version_raises env = None \<longrightarrow>
            take 1 (drop 4 (snd (run_migration env))) = [command_upgrade ''head''])
      \<and> (ensure_version_raises env \<noteq> None \<or> initial_upgrade_raises env \<noteq> None \<longrightarrow>
            fst (run_migration env) = Inl (RuntimeError ''Error initializing alembic'')
            \<and> command_check \<notin> set (snd (run_migration env)))
      \<and> (ensure_version_raises env = None \<and> initial_upgrade_raises env = None \<longrightarrow>
            take 3 (drop 5 (snd (run_migration env))) =
              [logger_info ''Alembic initialized'' None, logger_info ''Running DB migrations in '' None,
               command_check]))
   \<and> (session_exec_raises env = None \<longrightarrow>
        take 4 (snd (run_migration env)) =
          [session_exec ''SELECT * FROM alembic_version'', logger_info ''Alembic already initialized'' None,
           logger_info ''Running DB migrations in '' None, command_check]
        \<and> command_ensure_version \<notin> set (snd (run_migration env)))"
proof -
  obtain more where check: "check_and_upgrade env = command_check # more"
    using check_and_upgrade_starts by blast
  show ?thesis
  proof (cases "session_exec_raises env")
    case None
    have "command_ensure_version \<notin> set (snd (run_migration env))"
      using ensure_version_check_and_upgrade [of env] ensure_version_check_again [of env]
      by (simp add: run_migration_def initialize_alembic_skipped [OF None] Let_def)
    with None show ?thesis
      by (simp add: run_migration_def initialize_alembic_skipped [OF None] Let_def check)
  next
    case (Some e)
    show ?thesis
    proof (cases "ensure_version_raises env")
      case (Some exc)
      with \<open>session_exec_raises env = Some e\<close> show ?thesis
        by (simp add: run_migration_def initialize_alembic_ensure_version_fails)
    next
      case None
      show ?thesis
      proof (cases "initial_upgrade_raises env")
        case (Some exc)
        with \<open>session_exec_raises env = Some e\<close> \<open>ensure_version_raises env = None\<close> show ?thesis
          by (simp add: run_migration_def initialize_alembic_upgrade_fails)
      next
        case None
        with \<open>session_exec_raises env = Some e\<close> \<open>ensure_version_raises env = None\<close> show ?thesis
          by (simp add: run_migration_def initialize_alembic_done Let_def check)
      qed
    qed
  qed
qed

theorem run_migration_initialization_witness:
  "session_exec_raises env_init_fails = Some OtherException
   \<and> fst (run_migration env_init_fails) = Inl (RuntimeError ''Error initializing alembic'')
   \<and> take 5 (snd (run_migration env_init_fails)) =
       [session_exec ''SELECT * FROM alembic_version'', logger_info ''Alembic not initialized'' None,
        logger_info ''Initializing alembic'' None, command_ensure_version, command_upgrade ''head'']
   \<and> session_exec_raises env_initialized = None
   \<and> take 4 (snd (run_migration env_initialized)) =
       [session_exec ''SELECT * FROM alembic_version'', logger_info ''Alembic already initialized'' None,
        logger_info ''Running DB migrations in '' None, command_check]"
proof -
  have fails: "session_exec_raises env_init_fails = Some OtherException"
    "ensure_version_raises env_init_fails = None"
    "initial_upgrade_raises env_init_fails = Some CommandError"
    by (simp_all add: env_init_fails_def)
  have exists: "session_exec_raises env_initialized = None"
    by (simp add: env_initialized_def)
  have "take 5 (snd (run_migration env_init_fails)) =
      take 4 (snd (run_migration env_init_fails)) @ take 1 (drop 4 (snd (run_migration env_init_fails)))"
    by (simp add: take_add [of 4 1, simplified])
  with run_migration_initialization [of env_init_fails] run_migration_initialization [of env_initialized]
    fails exists
  show ?thesis
    by simp
qed

lemma initialize_alembic_cases:
  obtains (failed) trace where
      "session_exec_raises env \<noteq> None"
      "ensure_version_raises env \<noteq> None \<or> initial_upgrade_raises env \<noteq> None"
      "initialize_alembic env = Inl trace" "command_check \<notin> set trace"
  | (passed) trace where
      "session_exec_raises env = None \<or>
         (ensure_version_raises env = None \<and> initial_upgrade_raises env = None)"
      "initialize_alembic env = Inr trace" "command_check \<notin> set trace"
proof (cases "session_exec_raises env")
  case None
  with passed show ?thesis
    by (simp add: initialize_alembic_skipped)
next
  case (Some e)
  show ?thesis
  proof (cases "ensure_version_raises env")
    case (Some exc)
    with \<open>session_exec_raises env = Some e\<close> failed show ?thesis
      by (simp add: initialize_alembic_ensure_version_fails)
  next
    case None
    show ?thesis
    proof (cases "initial_upgrade_raises env")
      case (Some exc)
      with \<open>session_exec_raises env = Some e\<close> \<open>ensure_version_raises env = None\<close> failed
      show ?thesis
        by (simp add: initialize_alembic_upgrade_fails)
    next
      case None
      with \<open>session_exec_raises env = Some e\<close> \<open>ensure_version_raises env = None\<close> passed
      show ?thesis
        by (simp add: initialize_alembic_done)
    qed
  qed
qed

text \<open>
  Claim C5, as stated, fails: in an execution where the version table exists and every
  call returns, the check is invoked twice.
\<close>

theorem run_migration_checks_twice_example:
  "session_exec_raises env_initialized = None
   \<and> fst (run_migration env_initialized) = Inr ()
   \<and> count_list (snd (run_migration env_initialized)) command_check = 2"
  by (simp add: env_initialized_def run_migration_def initialize_alembic_def check_and_upgrade_def
      check_again_def)

text \<open>
  Claim C5, amended. In every execution of \<open>run_migration\<close> that gets past the
  initialization step the check operation is invoked exactly twice; in an execution
  whose initialization fails it is not invoked.
\<close>

theorem run_migration_checks_twice:
  "count_list (snd (run_migration env)) command_check =
     (if session_exec_raises env \<noteq> None \<and>
         (ensure_version_raises env \<noteq> None \<or> initial_upgrade_raises env \<noteq> None)
      then 0 else 2)"
proof (cases env rule: initialize_alembic_cases)
  case (failed trace)
  then show ?thesis
    by (simp add: run_migration_def)
next
  case (passed trace)
  then have "count_list (snd (run_migration env)) command_check = 2"
    by (simp add: run_migration_def Let_def count_check_and_upgrade count_check_again)
  with passed(1) show ?thesis
    by auto
qed

theorem run_migration_checks_twice_witness:
  "count_list (snd (run_migration env_mismatch)) command_check = 2
   \<and> count_list (snd (run_migration env_init_fails)) command_check = 0"
  using run_migration_checks_twice [of env_mismatch] run_migration_checks_twice [of env_init_fails]
  by (simp add: env_mismatch_def env_init_fails_def)










section \<open>Properties of init_db_samples\<close>

lemma foldr_max_start:
  "0 \<le> a \<Longrightarrow> foldr (\<lambda>r m. max (g r) m) table a = max (foldr (\<lambda>r m. max (g r) m) table (0::int)) a"
  by (induction table) auto

lemma foldr_max_nonneg: "0 \<le> foldr (\<lambda>r m. max (g r) m) table (0::int)"
  by (induction table) auto

lemma next_id_Nil: "next_id [] = 1"
  by (simp add: next_id_def)

lemma next_id_Cons:
  "next_id (r # table) = max ((case rid r of None \<Rightarrow> 0 | Some i \<Rightarrow> i) + 1) (next_id table)"
  by (simp add: next_id_def)

lemma next_id_append: "next_id (table @ rows) = max (next_id table) (next_id rows)"
  using foldr_max_start [OF foldr_max_nonneg, of "\<lambda>r. case rid r of None \<Rightarrow> 0 | Some i \<Rightarrow> i" table _ rows]
  by (simp add: next_id_def)

lemma next_id_pos: "1 \<le> next_id table"
  using foldr_max_nonneg [of _ table] by (simp add: next_id_def)

lemma session_add_simps:
  "session_add (Model r) d =
     (next_id (model_rows d), d\<lparr>model_rows := model_rows d @ [r\<lparr>rid := Some (next_id (model_rows d))\<rparr>]\<rparr>)"
  "session_add (Skill r) d =
     (next_id (skill_rows d), d\<lparr>skill_rows := skill_rows d @ [r\<lparr>rid := Some (next_id (skill_rows d))\<rparr>]\<rparr>)"
  "session_add (Agent a) d =
     (next_id (agent_rows d), d\<lparr>agent_rows := agent_rows d @ [a\<lparr>rid := Some (next_id (agent_rows d))\<rparr>]\<rparr>)"
  "session_add (Workflow w) d =
     (next_id (workflow_rows d),
      d\<lparr>workflow_rows := workflow_rows d @ [w\<lparr>rid := Some (next_id (workflow_rows d))\<rparr>]\<rparr>)"
  by (simp_all add: session_add_def Let_def)

lemma dbmanager_link_simps:
  "dbmanager_link ''agent_model'' p s t d = d\<lparr>agent_model := agent_model d @ [(p, s)]\<rparr>"
  "dbmanager_link ''agent_skill'' p s t d = d\<lparr>agent_skill := agent_skill d @ [(p, s)]\<rparr>"
  "dbmanager_link ''agent_agent'' p s t d = d\<lparr>agent_agent := agent_agent d @ [(p, s)]\<rparr>"
  "dbmanager_link ''workflow_agent'' p s t d =
     d\<lparr>workflow_agent := workflow_agent d @
         [\<lparr>link_workflow_id = p, link_agent_id = s, link_agent_type = t, link_sequence_id = 0,
           link_rest = []\<rparr>]\<rparr>"
  by (simp_all add: dbmanager_link_def)

text \<open>The database after a first run, table by table.\<close>

lemma init_db_samples_seeds:
  assumes "\<not> (''Default Workflow'' \<in> set (map wname (dbmanager_get (workflow_rows d) no_filters)) \<and>
              ''Travel Planning Workflow'' \<in> set (map wname (dbmanager_get (workflow_rows d) no_filters)))"
  shows "init_db_samples msg ty d =
     \<lparr>model_rows = model_rows d @
        [zephyr_model\<lparr>rid := Some (next_id (model_rows d))\<rparr>,
         google_gemini_model\<lparr>rid := Some (next_id (model_rows d) + 1)\<rparr>,
         azure_model\<lparr>rid := Some (next_id (model_rows d) + 2)\<rparr>,
         gpt_4_model\<lparr>rid := Some (next_id (model_rows d) + 3)\<rparr>],
      skill_rows = skill_rows d @
        [generate_image_skill\<lparr>rid := Some (next_id (skill_rows d))\<rparr>,
         generate_pdf_skill\<lparr>rid := Some (next_id (skill_rows d) + 1)\<rparr>],
      agent_rows = agent_rows d @
        [user_proxy\<lparr>rid := Some (next_id (agent_rows d))\<rparr>,
         (default_assistant msg)\<lparr>rid := Some (next_id (agent_rows d) + 1)\<rparr>,
         travel_groupchat_agent\<lparr>rid := Some (next_id (agent_rows d) + 2)\<rparr>,
         planner_assistant\<lparr>rid := Some (next_id (agent_rows d) + 3)\<rparr>,
         local_assistant\<lparr>rid := Some (next_id (agent_rows d) + 4)\<rparr>,
         language_assistant\<lparr>rid := Some (next_id (agent_rows d) + 5)\<rparr>],
      workflow_rows = workflow_rows d @
        [(travel_workflow ty)\<lparr>rid := Some (next_id (workflow_rows d))\<rparr>,
         (default_workflow ty)\<lparr>rid := Some (next_id (workflow_rows d) + 1)\<rparr>],
      agent_model = agent_model d @
        [(next_id (agent_rows d) + 1, next_id (model_rows d) + 3),
         (next_id (agent_rows d) + 2, next_id (model_rows d) + 3),
         (next_id (agent_rows d) + 3, next_id (model_rows d) + 3),
         (next_id (agent_rows d) + 4, next_id (model_rows d) + 3),
         (next_id (agent_rows d) + 5, next_id (model_rows d) + 3)],
      agent_skill = agent_skill d @ [(next_id (agent_rows d) + 1, next_id (skill_rows d))],
      agent_agent = agent_agent d @
        [(next_id (agent_rows d) + 2, next_id (agent_rows d) + 3),
         (next_id (agent_rows d) + 2, next_id (agent_rows d) + 4),
         (next_id (agent_rows d) + 2, next_id (agent_rows d) + 5),
         (next_id (agent_rows d) + 2, next_id (agent_rows d))],
      workflow_agent = workflow_agent d @
        [\<lparr>link_workflow_id = next_id (workflow_rows d) + 1, link_agent_id = next_id (agent_rows d),
          link_agent_type = Some ''sender'', link_sequence_id = 0, link_rest = []\<rparr>,
         \<lparr>link_workflow_id = next_id (workflow_rows d) + 1, link_agent_id = next_id (agent_rows d) + 1,
          link_agent_type = Some ''receiver'', link_sequence_id = 0, link_rest = []\<rparr>,
         \<lparr>link_workflow_id = next_id (workflow_rows d), link_agent_id = next_id (agent_rows d),
          link_agent_type = Some ''sender'', link_sequence_id = 0, link_rest = []\<rparr>,
         \<lparr>link_workflow_id = next_id (workflow_rows d), link_agent_id = next_id (agent_rows d) + 2,
          link_agent_type = Some ''receiver'', link_sequence_id = 0, link_rest = []\<rparr>],
      commits = commits d + 1\<rparr>"
proof -
  have ids: "1 \<le> next_id (model_rows d)" "1 \<le> next_id (skill_rows d)"
    "1 \<le> next_id (agent_rows d)" "1 \<le> next_id (workflow_rows d)"
    by (rule next_id_pos)+
  from assms ids show ?thesis
    by (simp add: init_db_samples_def Let_def split_def session_add_simps dbmanager_link_simps
        session_commit_def next_id_append next_id_Cons next_id_Nil)
qed



lemma init_db_samples_present:
  assumes "''Default Workflow'' \<in> set (map wname (dbmanager_get (workflow_rows d) no_filters))"
    and "''Travel Planning Workflow'' \<in> set (map wname (dbmanager_get (workflow_rows d) no_filters))"
  shows "init_db_samples msg ty d = d"
  using assms unfolding init_db_samples_def Let_def by (simp only: simp_thms if_True)

text \<open>
  Claim C2. Whenever the database holds workflows named "Default Workflow" and "Travel
  Planning Workflow", \<open>init_db_samples\<close> returns without modifying it; a second call
  after a first one therefore changes nothing: seeding is idempotent.
\<close>

theorem init_db_samples_idempotent:
  "(''Default Workflow'' \<in> set (map wname (dbmanager_get (workflow_rows d) no_filters)) \<and>
    ''Travel Planning Workflow'' \<in> set (map wname (dbmanager_get (workflow_rows d) no_filters)) \<longrightarrow>
      init_db_samples msg ty d = d)
   \<and> init_db_samples msg ty (init_db_samples msg ty d) = init_db_samples msg ty d"
proof (intro conjI impI)
  assume "''Default Workflow'' \<in> set (map wname (dbmanager_get (workflow_rows d) no_filters)) \<and>
    ''Travel Planning Workflow'' \<in> set (map wname (dbmanager_get (workflow_rows d) no_filters))"
  then show "init_db_samples msg ty d = d"
    by (simp add: init_db_samples_present)
next
  show "init_db_samples msg ty (init_db_samples msg ty d) = init_db_samples msg ty d"
  proof (cases "''Default Workflow'' \<in> set (map wname (dbmanager_get (workflow_rows d) no_filters)) \<and>
      ''Travel Planning Workflow'' \<in> set (map wname (dbmanager_get (workflow_rows d) no_filters))")
    case True
    then show ?thesis
      by (simp add: init_db_samples_present)
  next
    case False
    let ?seeded = "init_db_samples msg ty d"
    have "map wname (dbmanager_get (workflow_rows ?seeded) no_filters) =
        map wname (workflow_rows d) @ [''Travel Planning Workflow'', ''Default Workflow'']"
      unfolding init_db_samples_seeds [OF False]
      by (simp add: dbmanager_get_def no_filters_def travel_workflow_def default_workflow_def)
    then show ?thesis
      by (intro init_db_samples_present) simp_all
  qed
qed

theorem init_db_samples_idempotent_witness:
  "''Default Workflow'' \<in> set (map wname (dbmanager_get (workflow_rows named_db) no_filters))
   \<and> ''Travel Planning Workflow'' \<in> set (map wname (dbmanager_get (workflow_rows named_db) no_filters))
   \<and> init_db_samples ''be helpful'' ''autonomous'' named_db = named_db
   \<and> init_db_samples ''be helpful'' ''autonomous'' (init_db_samples ''be helpful'' ''autonomous'' empty_db) =
       init_db_samples ''be helpful'' ''autonomous'' empty_db"
proof -
  have present: "''Default Workflow'' \<in> set (map wname (dbmanager_get (workflow_rows named_db) no_filters))"
    "''Travel Planning Workflow'' \<in> set (map wname (dbmanager_get (workflow_rows named_db) no_filters))"
    by (simp_all add: named_db_def dbmanager_get_def no_filters_def)
  with init_db_samples_idempotent [of named_db "''be helpful''" "''autonomous''"]
    init_db_samples_idempotent [of empty_db "''be helpful''" "''autonomous''"]
  show ?thesis
    by simp
qed

end
